theory Spec2Isabelle
  imports Complex_Main
begin

section \<open>The plot widget of termui (v3/widgets/plot.go)\<close>

text \<open>
  A shallow embedding of \<^verbatim>\<open>Plot.Draw\<close>, \<^verbatim>\<open>plotAxes\<close>, \<^verbatim>\<open>renderBraille\<close> and
  \<^verbatim>\<open>renderDot\<close>. A redraw is a function from the widget to the widget after the
  call and the list of drawing commands it sent to the cell buffer and the canvas, in
  the order of the source. A run-time panic of Go is a value of type \<open>error\<close>; a
  loop that does not end is the value \<open>None\<close>.

  Go's \<^verbatim>\<open>int\<close> is modelled as \<open>int\<close>: the coordinates are terminal cells, far from
  the 64-bit range, and wrap-around is not modelled.
\<close>

subsection \<open>float64\<close>

text \<open>
  A \<^verbatim>\<open>float64\<close> is an infinity, a NaN or a finite value. The finite values are
  modelled as exact reals: rounding, overflow of a finite result to an infinity and
  the sign of zero are outside the model. The infinities and NaN follow IEEE 754:
  the widget starts from infinite bounds, and division by zero is not a panic.
\<close>

datatype float64 = NaN | NegInf | Fin real | PosInf

text \<open>Go's \<^verbatim>\<open>x < y\<close>: false as soon as one side is NaN.\<close>

fun flt :: "float64 \<Rightarrow> float64 \<Rightarrow> bool" where
  "flt (Fin a) (Fin b) = (a < b)"
| "flt NegInf (Fin b) = True"
| "flt NegInf PosInf = True"
| "flt (Fin a) PosInf = True"
| "flt _ _ = False"

text \<open>Go's \<^verbatim>\<open>x <= y\<close>.\<close>

definition fle :: "float64 \<Rightarrow> float64 \<Rightarrow> bool" where
  "fle x y = (x \<noteq> NaN \<and> y \<noteq> NaN \<and> \<not> flt y x)"

fun fneg :: "float64 \<Rightarrow> float64" where
  "fneg NaN = NaN"
| "fneg NegInf = PosInf"
| "fneg PosInf = NegInf"
| "fneg (Fin a) = Fin (- a)"

fun fadd :: "float64 \<Rightarrow> float64 \<Rightarrow> float64" where
  "fadd (Fin a) (Fin b) = Fin (a + b)"
| "fadd NaN _ = NaN"
| "fadd _ NaN = NaN"
| "fadd PosInf NegInf = NaN"
| "fadd NegInf PosInf = NaN"
| "fadd PosInf _ = PosInf"
| "fadd NegInf _ = NegInf"
| "fadd (Fin a) y = y"

definition fsub :: "float64 \<Rightarrow> float64 \<Rightarrow> float64" where
  "fsub x y = fadd x (fneg y)"

text \<open>The infinity with the sign of a non-zero real.\<close>

definition inf_of_sign :: "real \<Rightarrow> float64" where
  "inf_of_sign a = (if 0 < a then PosInf else NegInf)"

fun fmul :: "float64 \<Rightarrow> float64 \<Rightarrow> float64" where
  "fmul (Fin a) (Fin b) = Fin (a * b)"
| "fmul NaN _ = NaN"
| "fmul _ NaN = NaN"
| "fmul (Fin a) PosInf = (if a = 0 then NaN else inf_of_sign a)"
| "fmul (Fin a) NegInf = (if a = 0 then NaN else inf_of_sign (- a))"
| "fmul PosInf (Fin b) = (if b = 0 then NaN else inf_of_sign b)"
| "fmul NegInf (Fin b) = (if b = 0 then NaN else inf_of_sign (- b))"
| "fmul PosInf PosInf = PosInf"
| "fmul NegInf NegInf = PosInf"
| "fmul PosInf NegInf = NegInf"
| "fmul NegInf PosInf = NegInf"

text \<open>
  Division of floats never panics: a finite non-zero value over zero is an infinity,
  zero over zero and infinity over infinity are NaN. The zero divisor is taken as
  positive (the sign of zero is not modelled).
\<close>

fun fdiv :: "float64 \<Rightarrow> float64 \<Rightarrow> float64" where
  "fdiv (Fin a) (Fin b) =
     (if b = 0 then (if a = 0 then NaN else inf_of_sign a) else Fin (a / b))"
| "fdiv NaN _ = NaN"
| "fdiv _ NaN = NaN"
| "fdiv (Fin a) PosInf = Fin 0"
| "fdiv (Fin a) NegInf = Fin 0"
| "fdiv PosInf (Fin b) = (if 0 \<le> b then PosInf else NegInf)"
| "fdiv NegInf (Fin b) = (if 0 \<le> b then NegInf else PosInf)"
| "fdiv _ _ = NaN"

text \<open>The conversion \<^verbatim>\<open>float64(i)\<close> of an int.\<close>

definition float64_of_int :: "int \<Rightarrow> float64" where
  "float64_of_int i = Fin (of_int i)"

text \<open>
  The conversion \<^verbatim>\<open>int(f)\<close> truncates a finite value towards zero. For NaN and the
  infinities Go leaves the result to the implementation; the model takes the value
  the amd64 conversion instruction gives, the least 64-bit integer. A finite value
  beyond the 64-bit range is truncated like any other (the model's integers are
  unbounded). No property below depends on either choice.
\<close>

definition int_indefinite :: int where
  "int_indefinite = - (2 ^ 63)"

fun int_of_float64 :: "float64 \<Rightarrow> int" where
  "int_of_float64 (Fin a) = (if 0 \<le> a then \<lfloor>a\<rfloor> else \<lceil>a\<rceil>)"
| "int_of_float64 _ = int_indefinite"

text \<open>
  Integer division of Go truncates towards zero and panics on a zero divisor; the
  callers below test the divisor first.
\<close>

definition quo :: "int \<Rightarrow> int \<Rightarrow> int" where
  "quo a b = sgn a * sgn b * (\<bar>a\<bar> div \<bar>b\<bar>)"

subsection \<open>Helpers of the toolkit that the widget calls\<close>

text \<open>
  Modelled from the spec: \<^verbatim>\<open>MaxFloat64\<close> and \<^verbatim>\<open>MinFloat64\<close> are defined in the
  toolkit's utility file, which is not among the sources. The spec writes them
  \<^verbatim>\<open>max(1, range)\<close>, \<^verbatim>\<open>min(trackedMin, datasetMin)\<close> and
  \<^verbatim>\<open>max(trackedMax, datasetMax)\<close>: the larger and the smaller of two values, here by
  one comparison of Go.
\<close>

definition MaxFloat64 :: "float64 \<Rightarrow> float64 \<Rightarrow> float64" where
  "MaxFloat64 x y = (if flt y x then x else y)"

definition MinFloat64 :: "float64 \<Rightarrow> float64 \<Rightarrow> float64" where
  "MinFloat64 x y = (if flt x y then x else y)"

text \<open>
  Modelled from the spec: \<^verbatim>\<open>GetMaxFloat64From2dSlice\<close> and
  \<^verbatim>\<open>GetMinFloat64From2dSlice\<close> are defined in the same missing file. By the spec they
  compute "the dataset's minimum and maximum value across all series" and "an empty
  dataset is a no-op" that "keeps the infinite sentinels": the largest (smallest)
  value met, starting from minus (plus) infinity. Their second result, an error that
  \<^verbatim>\<open>Draw\<close> throws away, is left out.
\<close>

definition GetMaxFloat64From2dSlice :: "float64 list list \<Rightarrow> float64" where
  "GetMaxFloat64From2dSlice slices = fold MaxFloat64 (concat slices) NegInf"

definition GetMinFloat64From2dSlice :: "float64 list list \<Rightarrow> float64" where
  "GetMinFloat64From2dSlice slices = fold MinFloat64 (concat slices) PosInf"

subsection \<open>Formatting (package fmt)\<close>

text \<open>
  \<^verbatim>\<open>fmt.Sprintf("%d", i)\<close>: the decimal digits of an int.
\<close>

definition digit :: "nat \<Rightarrow> char" where
  "digit n = ''0123456789'' ! n"

fun digits :: "nat \<Rightarrow> string" where
  "digits n = (if n < 10 then [digit n] else digits (n div 10) @ [digit (n mod 10)])"

declare digits.simps [simp del]

definition Sprintf_d :: "int \<Rightarrow> string" where
  "Sprintf_d i = (if i < 0 then CHR ''-'' # digits (nat (- i)) else digits (nat i))"

text \<open>
  \<^verbatim>\<open>fmt.Sprintf("%.2f", v)\<close> belongs to Go's library, so the functions below take the
  formatter as the argument \<open>f2\<close> and the theorems hold for every formatter.
  \<open>Sprintf_2f\<close> is the formatter the closed examples use: two decimals, a tie
  rounded to the even neighbour, on the exact value.
\<close>

definition round_half_even :: "real \<Rightarrow> int" where
  "round_half_even r =
     (let f = \<lfloor>r\<rfloor>; d = r - of_int f
      in if d < 1 / 2 then f else if 1 / 2 < d then f + 1 else if even f then f else f + 1)"

definition Sprintf_2f :: "float64 \<Rightarrow> string" where
  "Sprintf_2f v =
     (case v of
        NaN \<Rightarrow> ''NaN''
      | PosInf \<Rightarrow> ''+Inf''
      | NegInf \<Rightarrow> ''-Inf''
      | Fin a \<Rightarrow>
          (let n = nat (round_half_even (\<bar>a\<bar> * 100))
           in (if a < 0 then ''-'' else []) @ digits (n div 100) @ ''.''
              @ [digit (n div 10 mod 10), digit (n mod 10)]))"

subsection \<open>Geometry (package image)\<close>

type_synonym Point = "int \<times> int"

text \<open>A rectangle \<^verbatim>\<open>{Min: (MinX, MinY), Max: (MaxX, MaxY)}\<close>.\<close>

record Rectangle =
  MinX :: int
  MinY :: int
  MaxX :: int
  MaxY :: int

text \<open>\<^verbatim>\<open>image.Rect\<close> orders its corners.\<close>

definition Rect :: "int \<Rightarrow> int \<Rightarrow> int \<Rightarrow> int \<Rightarrow> Rectangle" where
  "Rect x0 y0 x1 y1 =
     \<lparr>MinX = min x0 x1, MinY = min y0 y1, MaxX = max x0 x1, MaxY = max y0 y1\<rparr>"

definition Dx :: "Rectangle \<Rightarrow> int" where
  "Dx r = MaxX r - MinX r"

definition Dy :: "Rectangle \<Rightarrow> int" where
  "Dy r = MaxY r - MinY r"

text \<open>\<^verbatim>\<open>Point.In\<close>.\<close>

definition In_rect :: "Point \<Rightarrow> Rectangle \<Rightarrow> bool" where
  "In_rect pt r =
     (MinX r \<le> fst pt \<and> fst pt < MaxX r \<and> MinY r \<le> snd pt \<and> snd pt < MaxY r)"

subsection \<open>The widget and its output\<close>

datatype PlotType = LineChart | ScatterPlot

datatype PlotMarker = MarkerBraille | MarkerDot

text \<open>
  The fields of \<^verbatim>\<open>Plot\<close> that \<^verbatim>\<open>Draw\<close> reads or writes; \<open>Inner\<close> is the inner
  rectangle of the embedded \<^verbatim>\<open>Block\<close>. The palette \<^verbatim>\<open>LineColors\<close> and the rune
  \<^verbatim>\<open>DotMarkerRune\<close> only pass through to the buffer, so a command below carries the
  palette index given to \<^verbatim>\<open>SelectColor\<close> and the name of the rune. \<^verbatim>\<open>SelectColor\<close> is
  a helper of the toolkit outside the sources; it is taken to return a colour for
  every index (the spec: colours are assigned by index, cycling through the palette).
\<close>

record Plot =
  Inner :: Rectangle
  Data :: "float64 list list"
  DataLabels :: "string list"
  MaxVal :: float64
  MinVal :: float64
  XMaxVal :: float64
  XMinVal :: float64
  ShowAxes :: bool
  Marker :: PlotMarker
  PlotType :: PlotType
  HorizontalScale :: int

definition xAxisLabelsHeight :: int where "xAxisLabelsHeight = 1"

definition yAxisLabelsWidth :: int where "yAxisLabelsWidth = 4"

definition xAxisLabelsGap :: int where "xAxisLabelsGap = 2"

definition yAxisLabelsGap :: int where "yAxisLabelsGap = 1"

text \<open>\<^verbatim>\<open>NewPlot\<close>; the block has no rectangle yet.\<close>

definition NewPlot :: Plot where
  "NewPlot =
     \<lparr>Inner = \<lparr>MinX = 0, MinY = 0, MaxX = 0, MaxY = 0\<rparr>,
      Data = [], DataLabels = [],
      MaxVal = NegInf, MinVal = PosInf, XMaxVal = NegInf, XMinVal = PosInf,
      ShowAxes = True, Marker = MarkerBraille, PlotType = LineChart,
      HorizontalScale = 1\<rparr>"

datatype glyph = BOTTOM_LEFT | HORIZONTAL_DASH | VERTICAL_DASH | DotMarkerRune

datatype style = ColorWhite | LineColor nat

text \<open>
  What a redraw sends out: the frame (\<^verbatim>\<open>Block.Draw\<close>), cells and strings to the
  buffer, points and lines to the canvas, and the canvas to the buffer.
\<close>

datatype cmd =
    BlockDraw
  | SetCell glyph style Point
  | SetString string style Point
  | CanvasSetPoint Point nat
  | CanvasSetLine Point Point nat
  | CanvasDraw Rectangle

text \<open>The run-time panics of the widget.\<close>

datatype error = IndexOutOfRange | DivideByZero

definition bindE :: "error + 'a \<Rightarrow> ('a \<Rightarrow> error + 'b) \<Rightarrow> error + 'b" where
  "bindE m f = (case m of Inl e \<Rightarrow> Inl e | Inr a \<Rightarrow> f a)"

text \<open>An index expression \<^verbatim>\<open>xs[i]\<close>, with the bounds check of Go.\<close>

definition index :: "'a list \<Rightarrow> int \<Rightarrow> error + 'a" where
  "index xs i =
     (if 0 \<le> i \<and> i < int (length xs) then Inr (xs ! nat i) else Inl IndexOutOfRange)"

subsection \<open>The coordinate mapping\<close>

text \<open>
  The height of a value in cells, the expression of lines 96, 108, 110, 136 and 150:
  \<^verbatim>\<open>int((val - minVal) / MaxFloat64(1, maxVal-minVal) * float64(drawArea.Dy()-1))\<close>.
\<close>

definition cellHeight :: "Rectangle \<Rightarrow> float64 \<Rightarrow> float64 \<Rightarrow> float64 \<Rightarrow> int" where
  "cellHeight drawArea minVal maxVal val =
     int_of_float64
       (fmul (fdiv (fsub val minVal) (MaxFloat64 (Fin 1) (fsub maxVal minVal)))
             (float64_of_int (Dy drawArea - 1)))"

text \<open>
  The column of a scatter point, the expression of lines 99 and 137, with
  \<^verbatim>\<open>xDx := MaxFloat64(1, self.XMaxVal-self.XMinVal)\<close>.
\<close>

definition scatterColumn :: "Plot \<Rightarrow> Rectangle \<Rightarrow> float64 \<Rightarrow> int" where
  "scatterColumn p drawArea x =
     MinX drawArea
     + int_of_float64
         (fdiv (fmul (fsub x (XMinVal p))
                     (float64_of_int (HorizontalScale p * (Dx drawArea - 1))))
               (MaxFloat64 (Fin 1) (fsub (XMaxVal p) (XMinVal p))))"

subsection \<open>renderBraille\<close>

text \<open>The scatter loop (lines 94 to 105) from index \<open>i\<close> on.\<close>

fun brailleScatter ::
  "Plot \<Rightarrow> Rectangle \<Rightarrow> float64 \<Rightarrow> float64 \<Rightarrow> nat \<Rightarrow> float64 list \<Rightarrow> error + cmd list" where
  "brailleScatter p drawArea minVal maxVal i [] = Inr []"
| "brailleScatter p drawArea minVal maxVal i (x # xs) =
     bindE (index (Data p) 1) (\<lambda>ys.
     bindE (index ys (int i)) (\<lambda>y.
     bindE (brailleScatter p drawArea minVal maxVal (Suc i) xs) (\<lambda>cs.
       Inr (CanvasSetPoint
              (scatterColumn p drawArea x * 2,
               (MaxY drawArea - cellHeight drawArea minVal maxVal y - 1) * 4)
              0 # cs))))"

text \<open>
  The inner loop of the line chart (lines 109 to 123) over \<^verbatim>\<open>line[1:]\<close>, from
  position \<open>j\<close> on, for series \<open>i\<close>.
\<close>

fun brailleSegments ::
  "Plot \<Rightarrow> Rectangle \<Rightarrow> float64 \<Rightarrow> float64 \<Rightarrow> nat \<Rightarrow> int \<Rightarrow> int \<Rightarrow> float64 list \<Rightarrow> cmd list" where
  "brailleSegments p drawArea minVal maxVal i j previousHeight [] = []"
| "brailleSegments p drawArea minVal maxVal i j previousHeight (val # rest) =
     (let height = cellHeight drawArea minVal maxVal val
      in CanvasSetLine
           ((MinX drawArea + j * HorizontalScale p) * 2,
            (MaxY drawArea - previousHeight - 1) * 4)
           ((MinX drawArea + (j + 1) * HorizontalScale p) * 2,
            (MaxY drawArea - height - 1) * 4)
           i
         # brailleSegments p drawArea minVal maxVal i (j + 1) height rest)"

text \<open>The outer loop (lines 107 to 124) from series \<open>i\<close> on.\<close>

fun brailleLines ::
  "Plot \<Rightarrow> Rectangle \<Rightarrow> float64 \<Rightarrow> float64 \<Rightarrow> nat \<Rightarrow> float64 list list \<Rightarrow> error + cmd list" where
  "brailleLines p drawArea minVal maxVal i [] = Inr []"
| "brailleLines p drawArea minVal maxVal i (line # lines) =
     bindE (index line 1) (\<lambda>v1.
       let previousHeight = cellHeight drawArea minVal maxVal v1
       in bindE (brailleLines p drawArea minVal maxVal (Suc i) lines) (\<lambda>cs.
            Inr (brailleSegments p drawArea minVal maxVal i 0 previousHeight (tl line) @ cs)))"

definition renderBraille ::
  "Plot \<Rightarrow> Rectangle \<Rightarrow> float64 \<Rightarrow> float64 \<Rightarrow> error + cmd list" where
  "renderBraille p drawArea minVal maxVal =
     bindE
       (case PlotType p of
          ScatterPlot \<Rightarrow>
            bindE (index (Data p) 0) (brailleScatter p drawArea minVal maxVal 0)
        | LineChart \<Rightarrow> brailleLines p drawArea minVal maxVal 0 (Data p))
       (\<lambda>cs. Inr (cs @ [CanvasDraw drawArea]))"

subsection \<open>renderDot\<close>

fun dotScatter ::
  "Plot \<Rightarrow> Rectangle \<Rightarrow> float64 \<Rightarrow> float64 \<Rightarrow> nat \<Rightarrow> float64 list \<Rightarrow> error + cmd list" where
  "dotScatter p drawArea minVal maxVal i [] = Inr []"
| "dotScatter p drawArea minVal maxVal i (x # xs) =
     bindE (index (Data p) 1) (\<lambda>ys.
     bindE (index ys (int i)) (\<lambda>y.
       let point = (scatterColumn p drawArea x,
                    MaxY drawArea - 1 - cellHeight drawArea minVal maxVal y)
       in bindE (dotScatter p drawArea minVal maxVal (Suc i) xs) (\<lambda>cs.
            Inr (if In_rect point drawArea
                 then SetCell DotMarkerRune (LineColor 0) point # cs else cs))))"

text \<open>
  The loop of line 148, \<^verbatim>\<open>for j := 0; j < len(line) && j*scale < drawArea.Dx(); j++\<close>,
  from position \<open>j\<close> on.
\<close>

fun dotLine ::
  "Plot \<Rightarrow> Rectangle \<Rightarrow> float64 \<Rightarrow> float64 \<Rightarrow> nat \<Rightarrow> int \<Rightarrow> float64 list \<Rightarrow> cmd list" where
  "dotLine p drawArea minVal maxVal i j [] = []"
| "dotLine p drawArea minVal maxVal i j (val # rest) =
     (if j * HorizontalScale p < Dx drawArea
      then SetCell DotMarkerRune (LineColor i)
             (MinX drawArea + j * HorizontalScale p,
              MaxY drawArea - 1 - cellHeight drawArea minVal maxVal val)
           # dotLine p drawArea minVal maxVal i (j + 1) rest
      else [])"

fun dotLines ::
  "Plot \<Rightarrow> Rectangle \<Rightarrow> float64 \<Rightarrow> float64 \<Rightarrow> nat \<Rightarrow> float64 list list \<Rightarrow> cmd list" where
  "dotLines p drawArea minVal maxVal i [] = []"
| "dotLines p drawArea minVal maxVal i (line # lines) =
     dotLine p drawArea minVal maxVal i 0 line
     @ dotLines p drawArea minVal maxVal (Suc i) lines"

definition renderDot ::
  "Plot \<Rightarrow> Rectangle \<Rightarrow> float64 \<Rightarrow> float64 \<Rightarrow> error + cmd list" where
  "renderDot p drawArea minVal maxVal =
     (case PlotType p of
        ScatterPlot \<Rightarrow> bindE (index (Data p) 0) (dotScatter p drawArea minVal maxVal 0)
      | LineChart \<Rightarrow> Inr (dotLines p drawArea minVal maxVal 0 (Data p)))"

subsection \<open>plotAxes\<close>

text \<open>The origin cell and the two axis lines (lines 161 to 179).\<close>

definition axisLines :: "Plot \<Rightarrow> cmd list" where
  "axisLines p =
     SetCell BOTTOM_LEFT ColorWhite
       (MinX (Inner p) + yAxisLabelsWidth, MaxY (Inner p) - xAxisLabelsHeight - 1)
     # map (\<lambda>i. SetCell HORIZONTAL_DASH ColorWhite
                  (i + MinX (Inner p), MaxY (Inner p) - xAxisLabelsHeight - 1))
           [yAxisLabelsWidth + 1 .. Dx (Inner p) - 1]
     @ map (\<lambda>i. SetCell VERTICAL_DASH ColorWhite
                  (MinX (Inner p) + yAxisLabelsWidth, i + MinY (Inner p)))
           [0 .. Dy (Inner p) - xAxisLabelsHeight - 1 - 1]"

text \<open>Line 181.\<close>

definition verticalScale :: "Plot \<Rightarrow> float64 \<Rightarrow> float64 \<Rightarrow> float64" where
  "verticalScale p minVal maxVal =
     fdiv (fsub maxVal minVal) (float64_of_int (Dy (Inner p) - xAxisLabelsHeight - 1))"

text \<open>The text and the place of the Y label of step \<open>i\<close> (lines 183 to 187).\<close>

definition yAxisLabel :: "(float64 \<Rightarrow> string) \<Rightarrow> Plot \<Rightarrow> float64 \<Rightarrow> float64 \<Rightarrow> int \<Rightarrow> cmd" where
  "yAxisLabel f2 p minVal maxVal i =
     SetString
       (f2 (fadd (fmul (fmul (float64_of_int i) (verticalScale p minVal maxVal))
                       (float64_of_int (yAxisLabelsGap + 1)))
                 minVal))
       ColorWhite
       (MinX (Inner p), MaxY (Inner p) - (i * (yAxisLabelsGap + 1)) - 2)"

text \<open>
  The loop of line 182,
  \<^verbatim>\<open>for i := 0; i*(yAxisLabelsGap+1) < self.Inner.Dy()-1; i++\<close>, from step \<open>i\<close> on.
\<close>

function yAxisLabels :: "(float64 \<Rightarrow> string) \<Rightarrow> Plot \<Rightarrow> float64 \<Rightarrow> float64 \<Rightarrow> int \<Rightarrow> cmd list" where
  "yAxisLabels f2 p minVal maxVal i =
     (if i * (yAxisLabelsGap + 1) < Dy (Inner p) - 1
      then yAxisLabel f2 p minVal maxVal i # yAxisLabels f2 p minVal maxVal (i + 1)
      else [])"
  by pat_completeness auto
termination
  by (relation "measure (\<lambda>(f2, p, minVal, maxVal, i). nat (Dy (Inner p) - 1 - i * 2))")
     (auto simp: yAxisLabelsGap_def)

declare yAxisLabels.simps [simp del]

text \<open>The widening of the horizontal bounds (lines 191 to 194).\<close>

definition widenX :: "Plot \<Rightarrow> float64 list \<Rightarrow> Plot" where
  "widenX p xs =
     fold (\<lambda>x q. q\<lparr>XMinVal := MinFloat64 (XMinVal q) x, XMaxVal := MaxFloat64 (XMaxVal q) x\<rparr>)
          xs p"

text \<open>
  The text of an X label (lines 199 to 204 and 228 to 233): the supplied label at
  \<open>idx\<close> when there is one, the generated text otherwise.
\<close>

definition xLabelText :: "Plot \<Rightarrow> string \<Rightarrow> int \<Rightarrow> error + string" where
  "xLabelText p generated idx =
     (if idx < int (length (DataLabels p)) then index (DataLabels p) idx else Inr generated)"

text \<open>The generated text of a scatter label (line 198).\<close>

definition scatterLabel :: "(float64 \<Rightarrow> string) \<Rightarrow> Plot \<Rightarrow> int \<Rightarrow> string" where
  "scatterLabel f2 p idx =
     f2 (fadd (XMinVal p)
              (fdiv (fmul (float64_of_int idx) (fsub (XMaxVal p) (XMinVal p)))
                    (float64_of_int (Dx (Inner p) - yAxisLabelsWidth - 1))))"

text \<open>
  The label loop of the scatter plot (lines 196 to 211) from column \<open>x\<close> on. With a
  negative scale the column moves left for ever: the loop does not return.
\<close>

partial_function (option) scatterXLabels ::
  "(float64 \<Rightarrow> string) \<Rightarrow> Plot \<Rightarrow> int \<Rightarrow> (error + cmd list) option" where
  "scatterXLabels f2 p x =
     (if x < MaxX (Inner p) - 1 then
        (if HorizontalScale p = 0 then Some (Inl DivideByZero)
         else
           (case xLabelText p
                   (scatterLabel f2 p
                      (quo (x - (MinX (Inner p) + yAxisLabelsWidth)) (HorizontalScale p)))
                   (quo (x - (MinX (Inner p) + yAxisLabelsWidth)) (HorizontalScale p)) of
              Inl e \<Rightarrow> Some (Inl e)
            | Inr label \<Rightarrow>
                Option.bind
                  (scatterXLabels f2 p
                     (x + (int (length label) + xAxisLabelsGap) * HorizontalScale p))
                  (\<lambda>r. Some (bindE r (\<lambda>cs.
                     Inr (SetString label ColorWhite (x, MaxY (Inner p) - 1) # cs))))))
      else Some (Inr []))"

declare scatterXLabels.simps [code]

text \<open>The label loop of the line chart (lines 225 to 240) from column \<open>x\<close> on.\<close>

partial_function (option) lineXLabels :: "Plot \<Rightarrow> int \<Rightarrow> (error + cmd list) option" where
  "lineXLabels p x =
     (if x < MaxX (Inner p) - 1 then
        (if HorizontalScale p = 0 then Some (Inl DivideByZero)
         else
           (case xLabelText p
                   (Sprintf_d
                      (quo (x - (MinX (Inner p) + yAxisLabelsWidth) - 1) (HorizontalScale p) + 1))
                   (quo (x - (MinX (Inner p) + yAxisLabelsWidth) - 1) (HorizontalScale p) + 1) of
              Inl e \<Rightarrow> Some (Inl e)
            | Inr label \<Rightarrow>
                Option.bind
                  (lineXLabels p
                     (x + (int (length label) + xAxisLabelsGap) * HorizontalScale p))
                  (\<lambda>r. Some (bindE r (\<lambda>cs.
                     Inr (SetString label ColorWhite (x, MaxY (Inner p) - 1) # cs))))))
      else Some (Inr []))"

declare lineXLabels.simps [code]

text \<open>Lines 215 to 218.\<close>

definition firstLabel :: "Plot \<Rightarrow> string" where
  "firstLabel p = (if 0 < length (DataLabels p) then DataLabels p ! 0 else ''0'')"

text \<open>
  The \<^verbatim>\<open>switch\<close> of lines 189 to 241: the widget after it, and the X labels in the
  order they are written.
\<close>

definition xAxisLabels ::
  "(float64 \<Rightarrow> string) \<Rightarrow> Plot \<Rightarrow> (error + Plot \<times> cmd list) option" where
  "xAxisLabels f2 p =
     (case PlotType p of
        ScatterPlot \<Rightarrow>
          (case index (Data p) 0 of
             Inl e \<Rightarrow> Some (Inl e)
           | Inr xs \<Rightarrow>
               Option.bind
                 (scatterXLabels f2 (widenX p xs) (MinX (Inner p) + yAxisLabelsWidth))
                 (\<lambda>r. Some (bindE r (\<lambda>cs. Inr (widenX p xs, cs)))))
      | LineChart \<Rightarrow>
          Option.bind
            (lineXLabels p
               (MinX (Inner p) + yAxisLabelsWidth
                + (xAxisLabelsGap + int (length (firstLabel p)) - 1) * HorizontalScale p + 1))
            (\<lambda>r. Some (bindE r (\<lambda>cs.
               Inr (p, SetString (firstLabel p) ColorWhite
                         (MinX (Inner p) + yAxisLabelsWidth, MaxY (Inner p) - 1) # cs)))))"

definition plotAxes ::
  "(float64 \<Rightarrow> string) \<Rightarrow> Plot \<Rightarrow> float64 \<Rightarrow> float64 \<Rightarrow> (error + Plot \<times> cmd list) option" where
  "plotAxes f2 p minVal maxVal =
     Option.bind (xAxisLabels f2 p)
       (\<lambda>r. Some (bindE r (\<lambda>(p', labels).
          Inr (p', axisLines p @ yAxisLabels f2 p minVal maxVal 0 @ labels))))"

subsection \<open>Draw\<close>

text \<open>Lines 257 to 263.\<close>

definition drawAreaOf :: "Plot \<Rightarrow> Rectangle" where
  "drawAreaOf p =
     (if ShowAxes p
      then Rect (MinX (Inner p) + yAxisLabelsWidth + 1) (MinY (Inner p))
                (MaxX (Inner p)) (MaxY (Inner p) - xAxisLabelsHeight - 1)
      else Inner p)"

text \<open>Lines 247 to 251: the widening of the value bounds.\<close>

definition widenVal :: "Plot \<Rightarrow> Plot" where
  "widenVal p =
     (let currentMaxVal = GetMaxFloat64From2dSlice (Data p);
          p1 = p\<lparr>MaxVal := MaxFloat64 (MaxVal p) currentMaxVal\<rparr>;
          currentMinVal = GetMinFloat64From2dSlice (Data p1)
      in p1\<lparr>MinVal := MinFloat64 currentMinVal (MinVal p1)\<rparr>)"

text \<open>The \<^verbatim>\<open>switch\<close> of lines 265 to 270.\<close>

definition markers :: "Plot \<Rightarrow> error + cmd list" where
  "markers p =
     (case Marker p of
        MarkerBraille \<Rightarrow> renderBraille p (drawAreaOf p) (MinVal p) (MaxVal p)
      | MarkerDot \<Rightarrow> renderDot p (drawAreaOf p) (MinVal p) (MaxVal p))"

text \<open>
  \<^verbatim>\<open>Draw\<close>: the frame, the bounds, the axes when they are shown, then the markers.
  \<open>None\<close> when a label loop does not return, \<open>Inl\<close> when the call panics, else the
  widget after the call and the commands sent.
\<close>

definition Draw :: "(float64 \<Rightarrow> string) \<Rightarrow> Plot \<Rightarrow> (error + Plot \<times> cmd list) option" where
  "Draw f2 p0 =
     (let p = widenVal p0
      in Option.bind
           (if ShowAxes p then plotAxes f2 p (MinVal p) (MaxVal p) else Some (Inr (p, [])))
           (\<lambda>r. Some (bindE r (\<lambda>(p', axes).
              bindE (markers p') (\<lambda>cs. Inr (p', BlockDraw # axes @ cs))))))"

subsection \<open>Notions the properties are stated with\<close>

text \<open>
  A sequence of redraws of one widget: before each call the caller supplies the data
  and the labels. The result lists the widget after each call, up to the first call
  that does not return normally.
\<close>

fun redraws ::
  "(float64 \<Rightarrow> string) \<Rightarrow> Plot \<Rightarrow> (float64 list list \<times> string list) list \<Rightarrow> Plot list" where
  "redraws f2 p [] = []"
| "redraws f2 p (supplied # rest) =
     (case Draw f2 (p\<lparr>Data := fst supplied, DataLabels := snd supplied\<rparr>) of
        Some (Inr (p', cs)) \<Rightarrow> p' # redraws f2 p' rest
      | _ \<Rightarrow> [])"

text \<open>
  The columns of a label: it starts at the column it is written to and ends after
  \<^verbatim>\<open>len(label)\<close> columns, the width line 210 and line 239 count.
\<close>

fun labelStart :: "cmd \<Rightarrow> int" where
  "labelStart (SetString label s pt) = fst pt"
| "labelStart _ = 0"

fun labelEnd :: "cmd \<Rightarrow> int" where
  "labelEnd (SetString label s pt) = fst pt + int (length label)"
| "labelEnd _ = 0"

text \<open>A label of the X axis: a string on the last row of the inner rectangle.\<close>

fun isXLabel :: "Plot \<Rightarrow> cmd \<Rightarrow> bool" where
  "isXLabel p (SetString label s pt) = (s = ColorWhite \<and> snd pt = MaxY (Inner p) - 1)"
| "isXLabel p _ = False"

text \<open>Each label starts at least the gap after the end of the label before it.\<close>

fun labelsSpaced :: "cmd list \<Rightarrow> bool" where
  "labelsSpaced (c # c' # cs) =
     (labelEnd c + xAxisLabelsGap \<le> labelStart c' \<and> labelsSpaced (c' # cs))"
| "labelsSpaced _ = True"

text \<open>
  The bounds along a sequence of widgets: from each to the next, \<^verbatim>\<open>MinVal\<close> does not
  grow and \<^verbatim>\<open>MaxVal\<close> does not shrink.
\<close>

fun boundsWiden :: "Plot list \<Rightarrow> bool" where
  "boundsWiden (p # p' # ps) =
     (fle (MinVal p') (MinVal p) \<and> fle (MaxVal p) (MaxVal p') \<and> boundsWiden (p' # ps))"
| "boundsWiden _ = True"

section \<open>Properties\<close>

subsection \<open>The label loops\<close>


lemma quo_nonneg: "0 \<le> a \<Longrightarrow> 0 < b \<Longrightarrow> 0 \<le> quo a b"
  by (simp add: quo_def sgn_if pos_imp_zdiv_nonneg_iff)

lemma xLabelText_nonneg: "0 \<le> idx \<Longrightarrow> \<exists>label. xLabelText p generated idx = Inr label"
  by (simp add: xLabelText_def index_def)

lemma label_advance:
  assumes "0 < HorizontalScale p"
  shows "x + int (length label) + xAxisLabelsGap
         \<le> x + (int (length label) + xAxisLabelsGap) * HorizontalScale p"
proof -
  have "(int (length label) + 2) * 1 \<le> (int (length label) + 2) * HorizontalScale p"
    using assms by (intro mult_left_mono) simp_all
  then show ?thesis by (simp add: xAxisLabelsGap_def)
qed

lemma labelsSpaced_Cons:
  assumes "labelsSpaced cs" "\<forall>c\<in>set (take 1 cs). labelStart c = x'"
    and "x + int (length label) + xAxisLabelsGap \<le> x'"
  shows "labelsSpaced (SetString label s (x, y) # cs)"
  using assms by (cases cs) simp_all

lemma lineXLabels_spaced:
  assumes hs: "0 < HorizontalScale p"
  shows "MinX (Inner p) + yAxisLabelsWidth + 1 \<le> x \<Longrightarrow>
    \<exists>cs. lineXLabels p x = Some (Inr cs) \<and> labelsSpaced cs \<and> (\<forall>c\<in>set cs. isXLabel p c)
       \<and> (\<forall>c\<in>set (take 1 cs). labelStart c = x)"
proof (induction "nat (MaxX (Inner p) - 1 - x)" arbitrary: x rule: less_induct)
  case less
  show ?case
  proof (cases "x < MaxX (Inner p) - 1")
    case False
    then show ?thesis by (subst lineXLabels.simps) simp
  next
    case True
    define idx where
      "idx = quo (x - (MinX (Inner p) + yAxisLabelsWidth) - 1) (HorizontalScale p) + 1"
    have "0 \<le> idx"
      using less.prems hs quo_nonneg [of "x - (MinX (Inner p) + yAxisLabelsWidth) - 1" "HorizontalScale p"]
      by (simp add: idx_def)
    then obtain label where lab: "xLabelText p (Sprintf_d idx) idx = Inr label"
      using xLabelText_nonneg by blast
    define x' where "x' = x + (int (length label) + xAxisLabelsGap) * HorizontalScale p"
    have far: "x + int (length label) + xAxisLabelsGap \<le> x'"
      unfolding x'_def using hs by (rule label_advance)
    then have "nat (MaxX (Inner p) - 1 - x') < nat (MaxX (Inner p) - 1 - x)"
      using True by (simp add: xAxisLabelsGap_def)
    moreover have "MinX (Inner p) + yAxisLabelsWidth + 1 \<le> x'"
      using far less.prems by (simp add: xAxisLabelsGap_def)
    ultimately obtain cs where cs: "lineXLabels p x' = Some (Inr cs)" "labelsSpaced cs"
      "\<forall>c\<in>set cs. isXLabel p c" "\<forall>c\<in>set (take 1 cs). labelStart c = x'"
      using less.hyps by blast
    have sp: "labelsSpaced (SetString label ColorWhite (x, MaxY (Inner p) - 1) # cs)"
      using cs(2,4) far by (rule labelsSpaced_Cons)
    show ?thesis
      using True hs lab cs(1,3) sp
      by (subst lineXLabels.simps) (simp add: idx_def [symmetric] x'_def [symmetric] bindE_def)
  qed
qed

lemma scatterXLabels_spaced:
  assumes hs: "0 < HorizontalScale p"
  shows "MinX (Inner p) + yAxisLabelsWidth \<le> x \<Longrightarrow>
    \<exists>cs. scatterXLabels f2 p x = Some (Inr cs) \<and> labelsSpaced cs \<and> (\<forall>c\<in>set cs. isXLabel p c)
       \<and> (\<forall>c\<in>set (take 1 cs). labelStart c = x)"
proof (induction "nat (MaxX (Inner p) - 1 - x)" arbitrary: x rule: less_induct)
  case less
  show ?case
  proof (cases "x < MaxX (Inner p) - 1")
    case False
    then show ?thesis by (subst scatterXLabels.simps) simp
  next
    case True
    define idx where
      "idx = quo (x - (MinX (Inner p) + yAxisLabelsWidth)) (HorizontalScale p)"
    have "0 \<le> idx"
      using less.prems hs quo_nonneg [of "x - (MinX (Inner p) + yAxisLabelsWidth)" "HorizontalScale p"]
      by (simp add: idx_def)
    then obtain label where lab: "xLabelText p (scatterLabel f2 p idx) idx = Inr label"
      using xLabelText_nonneg by blast
    define x' where "x' = x + (int (length label) + xAxisLabelsGap) * HorizontalScale p"
    have far: "x + int (length label) + xAxisLabelsGap \<le> x'"
      unfolding x'_def using hs by (rule label_advance)
    then have "nat (MaxX (Inner p) - 1 - x') < nat (MaxX (Inner p) - 1 - x)"
      using True by (simp add: xAxisLabelsGap_def)
    moreover have "MinX (Inner p) + yAxisLabelsWidth \<le> x'"
      using far less.prems by (simp add: xAxisLabelsGap_def)
    ultimately obtain cs where cs: "scatterXLabels f2 p x' = Some (Inr cs)" "labelsSpaced cs"
      "\<forall>c\<in>set cs. isXLabel p c" "\<forall>c\<in>set (take 1 cs). labelStart c = x'"
      using less.hyps by blast
    have sp: "labelsSpaced (SetString label ColorWhite (x, MaxY (Inner p) - 1) # cs)"
      using cs(2,4) far by (rule labelsSpaced_Cons)
    show ?thesis
      using True hs lab cs(1,3) sp
      by (subst scatterXLabels.simps) (simp add: idx_def [symmetric] x'_def [symmetric] bindE_def)
  qed
qed

lemma widenX_fields [simp]:
  "Inner (widenX p xs) = Inner p" "Data (widenX p xs) = Data p"
  "DataLabels (widenX p xs) = DataLabels p" "MaxVal (widenX p xs) = MaxVal p"
  "MinVal (widenX p xs) = MinVal p" "ShowAxes (widenX p xs) = ShowAxes p"
  "Marker (widenX p xs) = Marker p" "PlotType (widenX p xs) = PlotType p"
  "HorizontalScale (widenX p xs) = HorizontalScale p"
  unfolding widenX_def by (induction xs arbitrary: p; simp)+

lemma isXLabel_widenX [simp]: "isXLabel (widenX p xs) c = isXLabel p c"
  by (cases c) simp_all


text \<open>The widget after the X labels.\<close>

lemma xAxisLabels_returns:
  assumes "0 < HorizontalScale p" and "PlotType p = LineChart \<or> Data p \<noteq> []"
  shows "\<exists>cs. xAxisLabels f2 p
              = Some (Inr (case PlotType p of LineChart \<Rightarrow> p
                                            | ScatterPlot \<Rightarrow> widenX p (Data p ! 0), cs))
           \<and> labelsSpaced cs \<and> (\<forall>c\<in>set cs. isXLabel p c)"
proof (cases "PlotType p")
  case LineChart
  define x0 where "x0 = MinX (Inner p) + yAxisLabelsWidth
     + (xAxisLabelsGap + int (length (firstLabel p)) - 1) * HorizontalScale p + 1"
  have "0 \<le> (xAxisLabelsGap + int (length (firstLabel p)) - 1) * HorizontalScale p"
    using assms(1) by (simp add: xAxisLabelsGap_def)
  then have lo: "MinX (Inner p) + yAxisLabelsWidth + 1 \<le> x0"
    by (simp add: x0_def)
  then obtain cs where cs: "lineXLabels p x0 = Some (Inr cs)" "labelsSpaced cs"
      "\<forall>c\<in>set cs. isXLabel p c" "\<forall>c\<in>set (take 1 cs). labelStart c = x0"
    using lineXLabels_spaced [OF assms(1)] by blast
  have "(int (length (firstLabel p)) + 1) * 1
        \<le> (int (length (firstLabel p)) + 1) * HorizontalScale p"
    using assms(1) by (intro mult_left_mono) simp_all
  then have "MinX (Inner p) + yAxisLabelsWidth + int (length (firstLabel p)) + xAxisLabelsGap \<le> x0"
    by (simp add: x0_def xAxisLabelsGap_def)
  with cs(2,4) have "labelsSpaced (SetString (firstLabel p) ColorWhite
      (MinX (Inner p) + yAxisLabelsWidth, MaxY (Inner p) - 1) # cs)"
    by (rule labelsSpaced_Cons)
  then show ?thesis
    using LineChart cs(1,3) by (simp add: xAxisLabels_def x0_def [symmetric] bindE_def)
next
  case ScatterPlot
  with assms(2) obtain xs rest where d: "Data p = xs # rest"
    by (cases "Data p") auto
  obtain cs where cs: "scatterXLabels f2 (widenX p xs) (MinX (Inner p) + yAxisLabelsWidth) = Some (Inr cs)"
      "labelsSpaced cs" "\<forall>c\<in>set cs. isXLabel p c"
    using scatterXLabels_spaced [of "widenX p xs" "MinX (Inner p) + yAxisLabelsWidth" f2] assms(1)
    by auto
  then show ?thesis
    using ScatterPlot d by (simp add: xAxisLabels_def index_def bindE_def)
qed

lemma xAxisLabels_no_series:
  "PlotType p = ScatterPlot \<Longrightarrow> Data p = [] \<Longrightarrow> xAxisLabels f2 p = Some (Inl IndexOutOfRange)"
  by (simp add: xAxisLabels_def index_def)

lemma plotAxes_returns:
  assumes "0 < HorizontalScale p" and "PlotType p = LineChart \<or> Data p \<noteq> []"
  shows "\<exists>cs. plotAxes f2 p minVal maxVal
              = Some (Inr (case PlotType p of LineChart \<Rightarrow> p
                                            | ScatterPlot \<Rightarrow> widenX p (Data p ! 0), cs))"
  using xAxisLabels_returns [OF assms, of f2] by (auto simp: plotAxes_def bindE_def)

lemma plotAxes_no_series:
  "PlotType p = ScatterPlot \<Longrightarrow> Data p = [] \<Longrightarrow>
   plotAxes f2 p minVal maxVal = Some (Inl IndexOutOfRange)"
  by (simp add: plotAxes_def xAxisLabels_no_series bindE_def)

lemma widenVal_fields [simp]:
  "Inner (widenVal p) = Inner p" "Data (widenVal p) = Data p"
  "DataLabels (widenVal p) = DataLabels p" "XMaxVal (widenVal p) = XMaxVal p"
  "XMinVal (widenVal p) = XMinVal p" "ShowAxes (widenVal p) = ShowAxes p"
  "Marker (widenVal p) = Marker p" "PlotType (widenVal p) = PlotType p"
  "HorizontalScale (widenVal p) = HorizontalScale p"
  by (simp_all add: widenVal_def Let_def)

lemma drawAreaOf_widenX [simp]: "drawAreaOf (widenX p xs) = drawAreaOf p"
  by (simp add: drawAreaOf_def)

subsection \<open>When the renderers panic\<close>

lemma brailleLines_short:
  "\<exists>line\<in>set lines. length line < 2 \<Longrightarrow>
   brailleLines p drawArea minVal maxVal i lines = Inl IndexOutOfRange"
proof (induction lines arbitrary: i)
  case Nil
  then show ?case by simp
next
  case (Cons line lines)
  show ?case
  proof (cases "length line < 2")
    case True
    then show ?thesis by (simp add: index_def bindE_def)
  next
    case False
    with Cons.prems have "\<exists>l\<in>set lines. length l < 2" by auto
    then have "brailleLines p drawArea minVal maxVal (Suc i) lines = Inl IndexOutOfRange"
      by (rule Cons.IH)
    then show ?thesis by (simp add: index_def bindE_def Let_def)
  qed
qed

lemma brailleLines_long:
  "\<forall>line\<in>set lines. 2 \<le> length line \<Longrightarrow>
   \<exists>cs. brailleLines p drawArea minVal maxVal i lines = Inr cs"
proof (induction lines arbitrary: i)
  case Nil
  then show ?case by simp
next
  case (Cons line lines)
  then obtain cs where "brailleLines p drawArea minVal maxVal (Suc i) lines = Inr cs"
    by auto
  with Cons.prems show ?case by (simp add: index_def bindE_def Let_def)
qed

text \<open>
  The scatter loops read \<^verbatim>\<open>self.Data[1][i]\<close> for every index of the first series.
\<close>

lemma brailleScatter_outcome:
  "brailleScatter p drawArea minVal maxVal i xs =
     Inl IndexOutOfRange \<and> xs \<noteq> [] \<and> (length (Data p) < 2 \<or> length (Data p ! 1) < i + length xs)
   \<or> (\<exists>cs. brailleScatter p drawArea minVal maxVal i xs = Inr cs)
       \<and> (xs = [] \<or> (2 \<le> length (Data p) \<and> i + length xs \<le> length (Data p ! 1)))"
proof (induction xs arbitrary: i)
  case Nil
  then show ?case by simp
next
  case (Cons x xs)
  from Cons.IH [of "Suc i"] show ?case
    by (auto simp: index_def bindE_def)
qed

lemma dotScatter_outcome:
  "dotScatter p drawArea minVal maxVal i xs =
     Inl IndexOutOfRange \<and> xs \<noteq> [] \<and> (length (Data p) < 2 \<or> length (Data p ! 1) < i + length xs)
   \<or> (\<exists>cs. dotScatter p drawArea minVal maxVal i xs = Inr cs)
       \<and> (xs = [] \<or> (2 \<le> length (Data p) \<and> i + length xs \<le> length (Data p ! 1)))"
proof (induction xs arbitrary: i)
  case Nil
  then show ?case by simp
next
  case (Cons x xs)
  from Cons.IH [of "Suc i"] show ?case
    by (auto simp: index_def bindE_def Let_def)
qed


lemma renderBraille_scatter:
  assumes "PlotType p = ScatterPlot"
  shows "if Data p \<noteq> [] \<and> (Data p ! 0 = [] \<or>
              (2 \<le> length (Data p) \<and> length (Data p ! 0) \<le> length (Data p ! 1)))
         then \<exists>cs. renderBraille p drawArea minVal maxVal = Inr cs
         else renderBraille p drawArea minVal maxVal = Inl IndexOutOfRange"
proof (cases "Data p")
  case Nil
  with assms show ?thesis by (simp add: renderBraille_def index_def bindE_def)
next
  case (Cons xs rest)
  with assms brailleScatter_outcome [of p drawArea minVal maxVal 0 xs] show ?thesis
    by (auto simp: renderBraille_def index_def bindE_def)
qed

lemma renderDot_scatter:
  assumes "PlotType p = ScatterPlot"
  shows "if Data p \<noteq> [] \<and> (Data p ! 0 = [] \<or>
              (2 \<le> length (Data p) \<and> length (Data p ! 0) \<le> length (Data p ! 1)))
         then \<exists>cs. renderDot p drawArea minVal maxVal = Inr cs
         else renderDot p drawArea minVal maxVal = Inl IndexOutOfRange"
proof (cases "Data p")
  case Nil
  with assms show ?thesis by (simp add: renderDot_def index_def bindE_def)
next
  case (Cons xs rest)
  with assms dotScatter_outcome [of p drawArea minVal maxVal 0 xs] show ?thesis
    by (auto simp: renderDot_def index_def bindE_def)
qed

lemma renderBraille_lines:
  assumes "PlotType p = LineChart"
  shows "if \<exists>line\<in>set (Data p). length line < 2
         then renderBraille p drawArea minVal maxVal = Inl IndexOutOfRange
         else \<exists>cs. renderBraille p drawArea minVal maxVal = Inr cs"
proof (cases "\<exists>line\<in>set (Data p). length line < 2")
  case True
  with assms brailleLines_short [of "Data p" p drawArea minVal maxVal 0] show ?thesis
    by (simp add: renderBraille_def bindE_def)
next
  case False
  then have "\<forall>line\<in>set (Data p). 2 \<le> length line" by auto
  from brailleLines_long [OF this, of p drawArea minVal maxVal 0] assms False show ?thesis
    by (auto simp: renderBraille_def bindE_def)
qed

text \<open>\<^verbatim>\<open>Draw\<close> as the markers' outcome, once the axes have returned.\<close>

lemma Draw_via_markers:
  assumes "0 < HorizontalScale p" and "PlotType p = LineChart \<or> Data p \<noteq> []"
  shows "\<exists>p' axes. Data p' = Data p \<and> PlotType p' = PlotType p \<and> Marker p' = Marker p
           \<and> Draw f2 p = Some (bindE (markers p') (\<lambda>cs. Inr (p', BlockDraw # axes @ cs)))"
proof (cases "ShowAxes p")
  case False
  then show ?thesis
    by (intro exI [of _ "widenVal p"] exI [of _ "[]"])
       (simp add: Draw_def Let_def markers_def bindE_def split: sum.split)
next
  case True
  define q where "q = widenVal p"
  define p' where "p' = (case PlotType q of LineChart \<Rightarrow> q | ScatterPlot \<Rightarrow> widenX q (Data q ! 0))"
  from assms have "0 < HorizontalScale q" "PlotType q = LineChart \<or> Data q \<noteq> []"
    by (simp_all add: q_def)
  from plotAxes_returns [OF this, of f2 "MinVal q" "MaxVal q"]
  obtain axes where ax: "plotAxes f2 q (MinVal q) (MaxVal q) = Some (Inr (p', axes))"
    by (auto simp: p'_def)
  have "Data p' = Data p \<and> PlotType p' = PlotType p \<and> Marker p' = Marker p"
    by (simp add: p'_def q_def split: PlotType.split)
  moreover have "ShowAxes q"
    using True by (simp add: q_def)
  then have "Draw f2 p = Some (bindE (markers p') (\<lambda>cs. Inr (p', BlockDraw # axes @ cs)))"
    using ax by (simp add: Draw_def Let_def q_def [symmetric] markers_def bindE_def)
  ultimately show ?thesis by blast
qed

lemma Draw_no_series:
  assumes "PlotType p = ScatterPlot" "Data p = []"
  shows "Draw f2 p = Some (Inl IndexOutOfRange)"
proof (cases "ShowAxes p")
  case True
  with assms plotAxes_no_series [of "widenVal p" f2] show ?thesis
    by (simp add: Draw_def Let_def bindE_def)
next
  case False
  with assms show ?thesis
    by (cases "Marker p")
       (simp_all add: Draw_def Let_def bindE_def markers_def renderBraille_def renderDot_def
          index_def)
qed

lemma markers_scatter:
  assumes "PlotType p = ScatterPlot"
  shows "if Data p \<noteq> [] \<and> (Data p ! 0 = [] \<or>
              (2 \<le> length (Data p) \<and> length (Data p ! 0) \<le> length (Data p ! 1)))
         then \<exists>cs. markers p = Inr cs
         else markers p = Inl IndexOutOfRange"
  using renderBraille_scatter [OF assms] renderDot_scatter [OF assms]
  by (cases "Marker p") (simp_all add: markers_def)

lemma Draw_scatter_outcome:
  assumes "PlotType p = ScatterPlot" "0 < HorizontalScale p"
  shows "if Data p \<noteq> [] \<and> (Data p ! 0 = [] \<or>
              (2 \<le> length (Data p) \<and> length (Data p ! 0) \<le> length (Data p ! 1)))
         then \<exists>p' cs. Draw f2 p = Some (Inr (p', cs))
         else Draw f2 p = Some (Inl IndexOutOfRange)"
proof (cases "Data p = []")
  case True
  with assms Draw_no_series [of p f2] show ?thesis by simp
next
  case False
  with Draw_via_markers [OF assms(2), of f2]
  obtain p' axes where p': "Data p' = Data p" "PlotType p' = PlotType p"
    "Draw f2 p = Some (bindE (markers p') (\<lambda>cs. Inr (p', BlockDraw # axes @ cs)))"
    by blast
  from assms(1) p'(2) have "PlotType p' = ScatterPlot" by simp
  from markers_scatter [OF this] p'(1,3) show ?thesis
    by (auto simp: bindE_def)
qed


subsection \<open>The height mapping\<close>

lemma MaxFloat64_one_nonzero: "MaxFloat64 (Fin 1) r \<noteq> Fin 0"
  by (cases r) (simp_all add: MaxFloat64_def)

lemma cellHeight_Fin:
  "cellHeight drawArea (Fin a) (Fin b) (Fin v) =
     int_of_float64 (Fin ((v - a) / max 1 (b - a) * of_int (Dy drawArea - 1)))"
  by (simp add: cellHeight_def fsub_def MaxFloat64_def float64_of_int_def max_def)

text \<open>
  C9. The divisor of the height mapping is never zero, whatever the bounds, and when
  the range \<^verbatim>\<open>maxVal - minVal\<close> is below 1 (equal bounds included) the divisor is 1:
  the height is the truncation of \<^verbatim>\<open>(val - minVal) / 1 * (Dy - 1)\<close>, which for finite
  bounds and a finite value is a finite number.
\<close>

theorem clamp_divisor:
  "MaxFloat64 (Fin 1) (fsub maxVal minVal) \<noteq> Fin 0 \<and>
   (flt (fsub maxVal minVal) (Fin 1) \<longrightarrow>
      MaxFloat64 (Fin 1) (fsub maxVal minVal) = Fin 1 \<and>
      cellHeight drawArea minVal maxVal val =
        int_of_float64 (fmul (fdiv (fsub val minVal) (Fin 1))
                             (float64_of_int (Dy drawArea - 1)))) \<and>
   (b - a < 1 \<longrightarrow>
      cellHeight drawArea (Fin a) (Fin b) (Fin v) =
        int_of_float64 (Fin ((v - a) * of_int (Dy drawArea - 1))))"
proof (intro conjI impI)
  show "MaxFloat64 (Fin 1) (fsub maxVal minVal) \<noteq> Fin 0"
    by (rule MaxFloat64_one_nonzero)
next
  assume "flt (fsub maxVal minVal) (Fin 1)"
  then show one: "MaxFloat64 (Fin 1) (fsub maxVal minVal) = Fin 1"
    by (simp add: MaxFloat64_def)
  then show "cellHeight drawArea minVal maxVal val =
      int_of_float64 (fmul (fdiv (fsub val minVal) (Fin 1)) (float64_of_int (Dy drawArea - 1)))"
    by (simp add: cellHeight_def)
next
  assume "b - a < 1"
  then show "cellHeight drawArea (Fin a) (Fin b) (Fin v) =
      int_of_float64 (Fin ((v - a) * of_int (Dy drawArea - 1)))"
    by (simp add: cellHeight_Fin max_def)
qed

theorem clamp_divisor_witness:
  "flt (fsub (Fin 3) (Fin 3)) (Fin 1) \<and>
   MaxFloat64 (Fin 1) (fsub (Fin 3) (Fin 3)) = Fin 1 \<and>
   (3::real) - 3 < 1 \<and>
   cellHeight (Rect 0 0 10 5) (Fin 3) (Fin 3) (Fin (7 / 2)) = 2"
  using clamp_divisor [of "Fin 3" "Fin 3" "Rect 0 0 10 5" "Fin (7 / 2)" 3 3 "7 / 2"]
  by (simp add: fsub_def float64_of_int_def Dy_def Rect_def)

text \<open>
  C5, as the claim states it, fails: with the bounds 0 and 1/2 and a draw area of
  height 5 the upper bound is mapped to height 2, not to \<^verbatim>\<open>Dy - 1 = 4\<close>.
\<close>

theorem height_of_bounds_counterexample:
  "flt (Fin 0) (Fin (1 / 2)) \<and>
   cellHeight (Rect 0 0 10 5) (Fin 0) (Fin (1 / 2)) (Fin (1 / 2)) = 2 \<and>
   Dy (Rect 0 0 10 5) - 1 = 4"
  by (simp add: cellHeight_Fin Dy_def Rect_def)

text \<open>
  C5, amended. For finite bounds \<open>a < b\<close> and every draw area, the lower bound is
  mapped to height 0; the upper bound is mapped to \<^verbatim>\<open>Dy - 1\<close> when the range is at
  least 1, and to the truncation of \<^verbatim>\<open>(b - a) * (Dy - 1)\<close> when the range is below 1
  and the divisor is clamped to 1.
\<close>

theorem height_of_bounds:
  "a < b \<Longrightarrow>
   cellHeight drawArea (Fin a) (Fin b) (Fin a) = 0 \<and>
   (1 \<le> b - a \<longrightarrow> cellHeight drawArea (Fin a) (Fin b) (Fin b) = Dy drawArea - 1) \<and>
   (b - a < 1 \<longrightarrow>
      cellHeight drawArea (Fin a) (Fin b) (Fin b) =
        int_of_float64 (Fin ((b - a) * of_int (Dy drawArea - 1))))"
  by (simp add: cellHeight_Fin max_def)

theorem height_of_bounds_witness:
  "(0::real) < 4 \<and> cellHeight (Rect 0 0 10 5) (Fin 0) (Fin 4) (Fin 0) = 0 \<and>
   cellHeight (Rect 0 0 10 5) (Fin 0) (Fin 4) (Fin 4) = Dy (Rect 0 0 10 5) - 1 \<and>
   Dy (Rect 0 0 10 5) - 1 = 4"
  using height_of_bounds [of 0 4 "Rect 0 0 10 5"]
  by (simp add: Dy_def Rect_def)


subsection \<open>The bounds\<close>

lemma flt_irrefl: "\<not> flt x x"
  by (cases x) simp_all

lemma flt_asym: "flt x y \<Longrightarrow> \<not> flt y x"
  by (cases x; cases y) simp_all

lemma flt_not_NaN: "flt x y \<Longrightarrow> x \<noteq> NaN \<and> y \<noteq> NaN"
  by (cases x; cases y) simp_all

lemma fold_MaxFloat64_not_NaN: "acc \<noteq> NaN \<Longrightarrow> fold MaxFloat64 xs acc \<noteq> NaN"
proof (induction xs arbitrary: acc)
  case Nil
  then show ?case by simp
next
  case (Cons x xs)
  have "MaxFloat64 x acc \<noteq> NaN"
    using Cons.prems flt_not_NaN [of acc x] by (auto simp: MaxFloat64_def)
  then show ?case by (simp add: Cons.IH)
qed

lemma fold_MinFloat64_not_NaN: "acc \<noteq> NaN \<Longrightarrow> fold MinFloat64 xs acc \<noteq> NaN"
proof (induction xs arbitrary: acc)
  case Nil
  then show ?case by simp
next
  case (Cons x xs)
  have "MinFloat64 x acc \<noteq> NaN"
    using Cons.prems flt_not_NaN [of x acc] by (auto simp: MinFloat64_def)
  then show ?case by (simp add: Cons.IH)
qed

lemma MaxVal_widenVal:
  "MaxVal (widenVal p) = MaxFloat64 (MaxVal p) (GetMaxFloat64From2dSlice (Data p))"
  by (simp add: widenVal_def Let_def)

lemma MinVal_widenVal:
  "MinVal (widenVal p) = MinFloat64 (GetMinFloat64From2dSlice (Data p)) (MinVal p)"
  by (simp add: widenVal_def Let_def)

lemma widenVal_monotone:
  assumes "MinVal p \<noteq> NaN" "MaxVal p \<noteq> NaN"
  shows "fle (MinVal (widenVal p)) (MinVal p)" "fle (MaxVal p) (MaxVal (widenVal p))"
    "MinVal (widenVal p) \<noteq> NaN" "MaxVal (widenVal p) \<noteq> NaN"
proof -
  have mx: "GetMaxFloat64From2dSlice (Data p) \<noteq> NaN"
    by (simp add: GetMaxFloat64From2dSlice_def fold_MaxFloat64_not_NaN)
  show "fle (MinVal (widenVal p)) (MinVal p)"
    using assms(1) flt_asym [of "GetMinFloat64From2dSlice (Data p)" "MinVal p"]
      flt_not_NaN [of "GetMinFloat64From2dSlice (Data p)" "MinVal p"]
    by (auto simp: MinVal_widenVal MinFloat64_def fle_def flt_irrefl)
  show "fle (MaxVal p) (MaxVal (widenVal p))"
    using assms(2) mx by (auto simp: MaxVal_widenVal MaxFloat64_def fle_def flt_irrefl)
  show "MinVal (widenVal p) \<noteq> NaN"
    using assms(1) flt_not_NaN [of "GetMinFloat64From2dSlice (Data p)" "MinVal p"]
    by (auto simp: MinVal_widenVal MinFloat64_def)
  show "MaxVal (widenVal p) \<noteq> NaN"
    using assms(2) mx by (auto simp: MaxVal_widenVal MaxFloat64_def)
qed

text \<open>The axes leave the value bounds alone; a line chart leaves the widget alone.\<close>

lemma plotAxes_bounds:
  assumes "plotAxes f2 p minVal maxVal = Some (Inr (p', cs))"
  shows "MinVal p' = MinVal p \<and> MaxVal p' = MaxVal p"
  using assms
  by (auto simp: plotAxes_def xAxisLabels_def bindE_def
           split: PlotType.splits sum.splits Option.bind_splits)

lemma Draw_bounds:
  assumes "Draw f2 p = Some (Inr (p', cs))"
  shows "MinVal p' = MinVal (widenVal p) \<and> MaxVal p' = MaxVal (widenVal p)"
proof (cases "ShowAxes p")
  case True
  with assms obtain axes where "plotAxes f2 (widenVal p) (MinVal (widenVal p)) (MaxVal (widenVal p))
      = Some (Inr (p', axes))"
    by (auto simp: Draw_def Let_def bindE_def split: Option.bind_splits sum.splits)
  then show ?thesis by (rule plotAxes_bounds)
next
  case False
  with assms show ?thesis
    by (auto simp: Draw_def Let_def bindE_def split: sum.splits)
qed

text \<open>
  C6. From a widget whose bounds are not NaN (as after \<^verbatim>\<open>NewPlot\<close>), along any
  sequence of redraws, whatever data and labels are supplied to each, \<^verbatim>\<open>MinVal\<close>
  never grows and \<^verbatim>\<open>MaxVal\<close> never shrinks from one call to the next.
\<close>

theorem bounds_monotone:
  assumes "MinVal p \<noteq> NaN" and "MaxVal p \<noteq> NaN"
  shows "boundsWiden (p # redraws f2 p supplied)"
  using assms
proof (induction supplied arbitrary: p)
  case Nil
  then show ?case by simp
next
  case (Cons s rest)
  define q where "q = p\<lparr>Data := fst s, DataLabels := snd s\<rparr>"
  have q: "MinVal q = MinVal p" "MaxVal q = MaxVal p" by (simp_all add: q_def)
  show ?case
  proof (cases "Draw f2 q")
    case None
    then show ?thesis by (simp add: q_def [symmetric])
  next
    case (Some r)
    show ?thesis
    proof (cases r)
      case (Inl e)
      with Some show ?thesis by (simp add: q_def [symmetric])
    next
      case (Inr pc)
      obtain p' cs where pc: "pc = (p', cs)" by (cases pc)
      with Some Inr have d: "Draw f2 q = Some (Inr (p', cs))" by simp
      from Draw_bounds [OF d] have b: "MinVal p' = MinVal (widenVal q)" "MaxVal p' = MaxVal (widenVal q)"
        by simp_all
      from Cons.prems q have "MinVal q \<noteq> NaN" "MaxVal q \<noteq> NaN" by simp_all
      from widenVal_monotone [OF this] b q
      have step: "fle (MinVal p') (MinVal p)" "fle (MaxVal p) (MaxVal p')"
        "MinVal p' \<noteq> NaN" "MaxVal p' \<noteq> NaN"
        by simp_all
      from Cons.IH [OF step(3,4)] step(1,2) d show ?thesis
        by (simp add: q_def [symmetric])
    qed
  qed
qed

lemma bounds_example:
  "map (\<lambda>q. (MinVal q, MaxVal q))
     (redraws Sprintf_2f (NewPlot\<lparr>Inner := Rect 0 0 8 4\<rparr>)
        [([[Fin 0, Fin 10]], []), ([[Fin 4, Fin 5]], [])])
   = [(Fin 0, Fin 10), (Fin 0, Fin 10)]"
  by code_simp

theorem bounds_monotone_witness:
  "MinVal (NewPlot\<lparr>Inner := Rect 0 0 8 4\<rparr>) \<noteq> NaN \<and>
   MaxVal (NewPlot\<lparr>Inner := Rect 0 0 8 4\<rparr>) \<noteq> NaN \<and>
   boundsWiden (NewPlot\<lparr>Inner := Rect 0 0 8 4\<rparr>
                # redraws Sprintf_2f (NewPlot\<lparr>Inner := Rect 0 0 8 4\<rparr>)
                    [([[Fin 0, Fin 10]], []), ([[Fin 4, Fin 5]], [])]) \<and>
   map (\<lambda>q. (MinVal q, MaxVal q))
     (redraws Sprintf_2f (NewPlot\<lparr>Inner := Rect 0 0 8 4\<rparr>)
        [([[Fin 0, Fin 10]], []), ([[Fin 4, Fin 5]], [])])
   = [(Fin 0, Fin 10), (Fin 0, Fin 10)]"
  using bounds_monotone
          [of "NewPlot\<lparr>Inner := Rect 0 0 8 4\<rparr>" Sprintf_2f
              "[([[Fin 0, Fin 10]], []), ([[Fin 4, Fin 5]], [])]"]
        bounds_example
  by (simp add: NewPlot_def)

text \<open>
  C4. A redraw whose data holds no value leaves \<^verbatim>\<open>MinVal\<close> and \<^verbatim>\<open>MaxVal\<close> as they
  were (for a \<^verbatim>\<open>MaxVal\<close> that is not NaN).
\<close>

theorem empty_dataset_keeps_bounds:
  assumes "concat (Data p) = []" and "MaxVal p \<noteq> NaN" and "Draw f2 p = Some (Inr (p', cs))"
  shows "MinVal p' = MinVal p \<and> MaxVal p' = MaxVal p"
proof -
  have "flt NegInf (MaxVal p) \<or> MaxVal p = NegInf"
    using assms(2) by (cases "MaxVal p") simp_all
  then have "MaxFloat64 (MaxVal p) NegInf = MaxVal p"
    by (auto simp: MaxFloat64_def)
  moreover have "MinFloat64 PosInf (MinVal p) = MinVal p"
    by (simp add: MinFloat64_def)
  ultimately show ?thesis
    using Draw_bounds [OF assms(3)] assms(1)
    by (simp add: MaxVal_widenVal MinVal_widenVal GetMaxFloat64From2dSlice_def
          GetMinFloat64From2dSlice_def)
qed

lemma empty_dataset_example:
  "Draw Sprintf_2f (NewPlot\<lparr>Inner := Rect 0 0 8 4, ShowAxes := False\<rparr>)
   = Some (Inr (NewPlot\<lparr>Inner := Rect 0 0 8 4, ShowAxes := False\<rparr>,
               [BlockDraw, CanvasDraw (Rect 0 0 8 4)]))"
  by code_simp

theorem empty_dataset_keeps_bounds_witness:
  "concat (Data (NewPlot\<lparr>Inner := Rect 0 0 8 4, ShowAxes := False\<rparr>)) = [] \<and>
   MaxVal (NewPlot\<lparr>Inner := Rect 0 0 8 4, ShowAxes := False\<rparr>) \<noteq> NaN \<and>
   Draw Sprintf_2f (NewPlot\<lparr>Inner := Rect 0 0 8 4, ShowAxes := False\<rparr>)
   = Some (Inr (NewPlot\<lparr>Inner := Rect 0 0 8 4, ShowAxes := False\<rparr>,
               [BlockDraw, CanvasDraw (Rect 0 0 8 4)])) \<and>
   MinVal (NewPlot\<lparr>Inner := Rect 0 0 8 4, ShowAxes := False\<rparr>) = PosInf \<and>
   MaxVal (NewPlot\<lparr>Inner := Rect 0 0 8 4, ShowAxes := False\<rparr>) = NegInf"
  using empty_dataset_keeps_bounds
          [of "NewPlot\<lparr>Inner := Rect 0 0 8 4, ShowAxes := False\<rparr>" Sprintf_2f
              "NewPlot\<lparr>Inner := Rect 0 0 8 4, ShowAxes := False\<rparr>"
              "[BlockDraw, CanvasDraw (Rect 0 0 8 4)]"]
        empty_dataset_example
  by (simp add: NewPlot_def)

text \<open>Without axes a redraw does not touch the horizontal bounds.\<close>

lemma Draw_hidden_axes_x_bounds:
  assumes "\<not> ShowAxes p" and "Draw f2 p = Some (Inr (p', cs))"
  shows "XMinVal p' = XMinVal p \<and> XMaxVal p' = XMaxVal p"
  using assms by (auto simp: Draw_def Let_def bindE_def split: sum.splits)

text \<open>
  C2. The horizontal bounds are widened inside \<^verbatim>\<open>plotAxes\<close> (lines 191 to 194), which
  \<^verbatim>\<open>Draw\<close> calls only when the axes are shown. Without axes a scatter plot of the
  X values 1 and 2 leaves \<^verbatim>\<open>XMinVal\<close> and \<^verbatim>\<open>XMaxVal\<close> at the infinities they started
  from; with axes the same data gives 1 and 2.
\<close>

theorem x_bounds_need_axes:
  "map_option (map_sum id (\<lambda>r. (XMinVal (fst r), XMaxVal (fst r))))
     (Draw Sprintf_2f
        (NewPlot\<lparr>Inner := Rect 0 0 8 4, PlotType := ScatterPlot, ShowAxes := False,
                 Data := [[Fin 1, Fin 2], [Fin 3, Fin 4]]\<rparr>))
   = Some (Inr (PosInf, NegInf)) \<and>
   map_option (map_sum id (\<lambda>r. (XMinVal (fst r), XMaxVal (fst r))))
     (Draw Sprintf_2f
        (NewPlot\<lparr>Inner := Rect 0 0 8 4, PlotType := ScatterPlot, ShowAxes := True,
                 Data := [[Fin 1, Fin 2], [Fin 3, Fin 4]]\<rparr>))
   = Some (Inr (Fin 1, Fin 2))"
  by code_simp


subsection \<open>Scatter plots and the series count\<close>








lemma drawAreaOf_widenVal [simp]: "drawAreaOf (widenVal p) = drawAreaOf p"
  by (simp add: drawAreaOf_def)




text \<open>
  With fewer than two series the same call ends in a panic, unless the only series is
  empty.
\<close>

lemma scatter_too_few_series:
  assumes "PlotType p = ScatterPlot" and "0 < HorizontalScale p"
    and "length (Data p) < 2" and "Data p \<noteq> [[]]"
  shows "Draw f2 p = Some (Inl IndexOutOfRange)"
proof -
  from assms(3,4) have "\<not> (Data p \<noteq> [] \<and> (Data p ! 0 = [] \<or>
              (2 \<le> length (Data p) \<and> length (Data p ! 0) \<le> length (Data p ! 1))))"
    by (cases "Data p") auto
  with Draw_scatter_outcome [OF assms(1,2), of f2] show ?thesis by simp
qed

subsection \<open>Line charts with the braille marker\<close>

text \<open>
  C10. A line chart drawn with the braille marker reads \<^verbatim>\<open>line[1]\<close> of every series:
  the renderer panics with an index out of range when some series has fewer than two
  samples and returns normally when every series has two or more. So does the redraw,
  for a positive scale.
\<close>

theorem braille_line_needs_two_samples:
  assumes "PlotType p = LineChart"
  shows "(if \<exists>line\<in>set (Data p). length line < 2
          then renderBraille p drawArea minVal maxVal = Inl IndexOutOfRange
          else \<exists>cs. renderBraille p drawArea minVal maxVal = Inr cs)
       \<and> (Marker p = MarkerBraille \<and> 0 < HorizontalScale p \<longrightarrow>
            (if \<exists>line\<in>set (Data p). length line < 2
             then Draw f2 p = Some (Inl IndexOutOfRange)
             else \<exists>p' cs. Draw f2 p = Some (Inr (p', cs))))"
proof (intro conjI impI)
  show "if \<exists>line\<in>set (Data p). length line < 2
        then renderBraille p drawArea minVal maxVal = Inl IndexOutOfRange
        else \<exists>cs. renderBraille p drawArea minVal maxVal = Inr cs"
    using assms by (rule renderBraille_lines)
next
  assume mk: "Marker p = MarkerBraille \<and> 0 < HorizontalScale p"
  then have hs: "0 < HorizontalScale p" by simp
  from Draw_via_markers [OF hs, of f2] assms
  obtain p' axes where p': "Data p' = Data p" "PlotType p' = PlotType p" "Marker p' = Marker p"
    "Draw f2 p = Some (bindE (markers p') (\<lambda>cs. Inr (p', BlockDraw # axes @ cs)))"
    by blast
  from assms p'(2) have lc: "PlotType p' = LineChart" by simp
  have m: "markers p' = renderBraille p' (drawAreaOf p') (MinVal p') (MaxVal p')"
    using mk p'(3) by (simp add: markers_def)
  have r: "if \<exists>line\<in>set (Data p). length line < 2
           then markers p' = Inl IndexOutOfRange else \<exists>cs. markers p' = Inr cs"
    using renderBraille_lines [OF lc, of "drawAreaOf p'" "MinVal p'" "MaxVal p'"] m p'(1)
    by simp
  show "if \<exists>line\<in>set (Data p). length line < 2
        then Draw f2 p = Some (Inl IndexOutOfRange)
        else \<exists>p' cs. Draw f2 p = Some (Inr (p', cs))"
  proof (cases "\<exists>line\<in>set (Data p). length line < 2")
    case True
    with r p'(4) show ?thesis by (simp add: bindE_def)
  next
    case False
    with r obtain cs where "markers p' = Inr cs" by auto
    with p'(4) False show ?thesis by (simp add: bindE_def)
  qed
qed

theorem braille_line_needs_two_samples_witness:
  "PlotType (NewPlot\<lparr>Inner := Rect 0 0 30 8, Data := [[Fin 1, Fin 2, Fin 3], [Fin 7]]\<rparr>) = LineChart \<and>
   Marker (NewPlot\<lparr>Inner := Rect 0 0 30 8, Data := [[Fin 1, Fin 2, Fin 3], [Fin 7]]\<rparr>) = MarkerBraille \<and>
   0 < HorizontalScale (NewPlot\<lparr>Inner := Rect 0 0 30 8, Data := [[Fin 1, Fin 2, Fin 3], [Fin 7]]\<rparr>) \<and>
   renderBraille (NewPlot\<lparr>Inner := Rect 0 0 30 8, Data := [[Fin 1, Fin 2, Fin 3], [Fin 7]]\<rparr>)
     (Rect 5 0 30 6) (Fin 1) (Fin 7) = Inl IndexOutOfRange \<and>
   Draw Sprintf_2f (NewPlot\<lparr>Inner := Rect 0 0 30 8, Data := [[Fin 1, Fin 2, Fin 3], [Fin 7]]\<rparr>)
     = Some (Inl IndexOutOfRange) \<and>
   (\<exists>p' cs. Draw Sprintf_2f (NewPlot\<lparr>Inner := Rect 0 0 30 8, Data := [[Fin 1, Fin 2], [Fin 7, Fin 8]]\<rparr>)
              = Some (Inr (p', cs)))"
  using braille_line_needs_two_samples
          [of "NewPlot\<lparr>Inner := Rect 0 0 30 8, Data := [[Fin 1, Fin 2, Fin 3], [Fin 7]]\<rparr>"
              "Rect 5 0 30 6" "Fin 1" "Fin 7" Sprintf_2f]
        braille_line_needs_two_samples
          [of "NewPlot\<lparr>Inner := Rect 0 0 30 8, Data := [[Fin 1, Fin 2], [Fin 7, Fin 8]]\<rparr>"
              "Rect 5 0 30 6" "Fin 1" "Fin 8" Sprintf_2f]
  by (simp add: NewPlot_def)

subsection \<open>The labels of the X axis\<close>

text \<open>
  C8. For a positive horizontal scale, any formatter and any supplied labels, the
  labels of the X axis are written (for a scatter plot, given a first series), each
  on the last row, and each starts at least \<^verbatim>\<open>xAxisLabelsGap\<close> columns after the end
  of the label before it. The first label of a line chart is part of the sequence.
\<close>

theorem x_labels_do_not_overlap:
  assumes "0 < HorizontalScale p" and "PlotType p = LineChart \<or> Data p \<noteq> []"
  shows "\<exists>p' cs. xAxisLabels f2 p = Some (Inr (p', cs)) \<and> labelsSpaced cs
           \<and> (\<forall>c\<in>set cs. isXLabel p c)"
  using xAxisLabels_returns [OF assms, of f2] by blast

lemma x_labels_example:
  "xAxisLabels Sprintf_2f
     (NewPlot\<lparr>Inner := Rect 0 0 30 6, DataLabels := [''a'', ''bcd''], HorizontalScale := 2\<rparr>)
   = Some (Inr
       (NewPlot\<lparr>Inner := Rect 0 0 30 6, DataLabels := [''a'', ''bcd''], HorizontalScale := 2\<rparr>,
        [SetString ''a'' ColorWhite (4, 5),
         SetString ''3'' ColorWhite (9, 5),
         SetString ''6'' ColorWhite (15, 5),
         SetString ''9'' ColorWhite (21, 5),
         SetString ''12'' ColorWhite (27, 5)]))"
  by code_simp

theorem x_labels_do_not_overlap_witness:
  "0 < HorizontalScale
         (NewPlot\<lparr>Inner := Rect 0 0 30 6, DataLabels := [''a'', ''bcd''], HorizontalScale := 2\<rparr>) \<and>
   PlotType (NewPlot\<lparr>Inner := Rect 0 0 30 6, DataLabels := [''a'', ''bcd''], HorizontalScale := 2\<rparr>)
     = LineChart \<and>
   labelsSpaced
     [SetString ''a'' ColorWhite (4, 5), SetString ''3'' ColorWhite (9, 5),
      SetString ''6'' ColorWhite (15, 5), SetString ''9'' ColorWhite (21, 5),
      SetString ''12'' ColorWhite (27, 5)]"
  using x_labels_do_not_overlap
          [of "NewPlot\<lparr>Inner := Rect 0 0 30 6, DataLabels := [''a'', ''bcd''], HorizontalScale := 2\<rparr>"
              Sprintf_2f]
  unfolding x_labels_example
  by (simp add: NewPlot_def)


subsection \<open>The labels of the Y axis\<close>

lemma yAxisLabels_upto:
  "yAxisLabels f2 p minVal maxVal i
   = map (yAxisLabel f2 p minVal maxVal) [i .. (Dy (Inner p) - 2) div 2]"
proof (induction f2 p minVal maxVal i rule: yAxisLabels.induct)
  case (1 f2 p minVal maxVal i)
  show ?case
  proof (cases "i * (yAxisLabelsGap + 1) < Dy (Inner p) - 1")
    case True
    then have "i \<le> (Dy (Inner p) - 2) div 2"
      by (simp add: yAxisLabelsGap_def)
    then have "[i .. (Dy (Inner p) - 2) div 2] = i # [i + 1 .. (Dy (Inner p) - 2) div 2]"
      by (simp add: upto_rec1)
    with True "1.IH" show ?thesis
      by (subst yAxisLabels.simps) simp
  next
    case False
    then have "\<not> i \<le> (Dy (Inner p) - 2) div 2"
      by (simp add: yAxisLabelsGap_def)
    with False show ?thesis
      by (subst yAxisLabels.simps) simp
  qed
qed

lemma fadd_commute: "fadd x y = fadd y x"
  by (cases x; cases y) simp_all

lemma fmul_scale: "fmul (fmul (Fin a) v) (Fin 2) = fmul (Fin (a * 2)) v"
  by (cases v) (simp_all add: inf_of_sign_def)

lemma drawArea_rows:
  assumes "ShowAxes p" "2 \<le> Dy (Inner p)"
  shows "Dy (drawAreaOf p) = Dy (Inner p) - 2"
  using assms by (simp add: drawAreaOf_def Rect_def Dy_def xAxisLabelsHeight_def)

text \<open>
  C7, as the claim states it, fails: an inner rectangle of 6 rows has a draw area of
  4 rows, and the labeler emits the label of \<open>k = 2\<close> although \<open>2 * 2 < 4\<close> is false.
\<close>

theorem y_axis_labels_counterexample:
  "ShowAxes (NewPlot\<lparr>Inner := Rect 0 0 30 6\<rparr>) \<and>
   Dy (drawAreaOf (NewPlot\<lparr>Inner := Rect 0 0 30 6\<rparr>)) = 4 \<and>
   yAxisLabels Sprintf_2f (NewPlot\<lparr>Inner := Rect 0 0 30 6\<rparr>) (Fin 0) (Fin 4) 0
   = [SetString ''0.00'' ColorWhite (0, 4),
      SetString ''2.00'' ColorWhite (0, 2),
      SetString ''4.00'' ColorWhite (0, 0)] \<and>
   yAxisLabel Sprintf_2f (NewPlot\<lparr>Inner := Rect 0 0 30 6\<rparr>) (Fin 0) (Fin 4) 2
   = SetString ''4.00'' ColorWhite (0, 0) \<and>
   \<not> 2 * (yAxisLabelsGap + 1) < Dy (drawAreaOf (NewPlot\<lparr>Inner := Rect 0 0 30 6\<rparr>))"
  by code_simp

text \<open>
  C7, amended. With the axes shown and an inner rectangle of at least two rows, the
  labels of the Y axis are those of the steps \<open>k = 0, 1, ...\<close> with
  \<open>k * (yAxisLabelsGap + 1)\<close> at most the number of rows of the draw area, in this
  order and no others. The label of step \<open>k\<close> is the formatted value
  \<^verbatim>\<open>minVal + k*(yAxisLabelsGap+1)*verticalScale\<close>, with \<^verbatim>\<open>verticalScale\<close> the range
  over the rows of the draw area, written \<open>k * (yAxisLabelsGap + 1)\<close> rows above the
  row of the X axis.
\<close>

theorem y_axis_labels:
  assumes "ShowAxes p" and "2 \<le> Dy (Inner p)"
  shows "yAxisLabels f2 p minVal maxVal 0
         = map (yAxisLabel f2 p minVal maxVal)
             [0 .. Dy (drawAreaOf p) div (yAxisLabelsGap + 1)]
       \<and> (\<forall>k. k \<in> set [0 .. Dy (drawAreaOf p) div (yAxisLabelsGap + 1)]
              \<longleftrightarrow> 0 \<le> k \<and> k * (yAxisLabelsGap + 1) \<le> Dy (drawAreaOf p))
       \<and> (\<forall>k. yAxisLabel f2 p minVal maxVal k
              = SetString
                  (f2 (fadd minVal
                         (fmul (float64_of_int (k * (yAxisLabelsGap + 1)))
                               (fdiv (fsub maxVal minVal)
                                     (float64_of_int (Dy (drawAreaOf p)))))))
                  ColorWhite
                  (MinX (Inner p), MaxY (Inner p) - 2 - k * (yAxisLabelsGap + 1)))"
proof (intro conjI allI)
  show "yAxisLabels f2 p minVal maxVal 0
         = map (yAxisLabel f2 p minVal maxVal) [0 .. Dy (drawAreaOf p) div (yAxisLabelsGap + 1)]"
    by (simp add: yAxisLabels_upto drawArea_rows [OF assms] yAxisLabelsGap_def)
next
  fix k
  show "k \<in> set [0 .. Dy (drawAreaOf p) div (yAxisLabelsGap + 1)]
          \<longleftrightarrow> 0 \<le> k \<and> k * (yAxisLabelsGap + 1) \<le> Dy (drawAreaOf p)"
    by (simp add: yAxisLabelsGap_def) linarith
next
  fix k
  have "fmul (fmul (float64_of_int k) (verticalScale p minVal maxVal)) (Fin 2)
        = fmul (float64_of_int (k * 2)) (verticalScale p minVal maxVal)"
    by (simp add: float64_of_int_def fmul_scale)
  moreover have "verticalScale p minVal maxVal
        = fdiv (fsub maxVal minVal) (float64_of_int (Dy (drawAreaOf p)))"
    by (simp add: verticalScale_def drawArea_rows [OF assms] xAxisLabelsHeight_def)
  ultimately show "yAxisLabel f2 p minVal maxVal k
      = SetString
          (f2 (fadd minVal
                 (fmul (float64_of_int (k * (yAxisLabelsGap + 1)))
                       (fdiv (fsub maxVal minVal) (float64_of_int (Dy (drawAreaOf p)))))))
          ColorWhite
          (MinX (Inner p), MaxY (Inner p) - 2 - k * (yAxisLabelsGap + 1))"
    by (simp add: yAxisLabel_def yAxisLabelsGap_def float64_of_int_def
          fadd_commute [of _ minVal])
qed

theorem y_axis_labels_witness:
  "ShowAxes (NewPlot\<lparr>Inner := Rect 0 0 30 6\<rparr>) \<and>
   2 \<le> Dy (Inner (NewPlot\<lparr>Inner := Rect 0 0 30 6\<rparr>)) \<and>
   yAxisLabels Sprintf_2f (NewPlot\<lparr>Inner := Rect 0 0 30 6\<rparr>) (Fin 0) (Fin 4) 0
   = map (yAxisLabel Sprintf_2f (NewPlot\<lparr>Inner := Rect 0 0 30 6\<rparr>) (Fin 0) (Fin 4)) [0, 1, 2]"
proof -
  have a: "ShowAxes (NewPlot\<lparr>Inner := Rect 0 0 30 6\<rparr>)"
    by (simp add: NewPlot_def)
  have b: "2 \<le> Dy (Inner (NewPlot\<lparr>Inner := Rect 0 0 30 6\<rparr>))"
    by (simp add: NewPlot_def Rect_def Dy_def)
  have c: "[0 .. Dy (drawAreaOf (NewPlot\<lparr>Inner := Rect 0 0 30 6\<rparr>)) div (yAxisLabelsGap + 1)]
           = [0, 1, 2]"
    by code_simp
  from y_axis_labels [OF a b, of Sprintf_2f "Fin 0" "Fin 4"] a b show ?thesis
    unfolding c by blast
qed

text \<open>The axes write the axis lines, then the Y labels, then the X labels.\<close>

lemma plotAxes_commands:
  assumes "plotAxes f2 p minVal maxVal = Some (Inr (p', cs))"
  shows "\<exists>labels. xAxisLabels f2 p = Some (Inr (p', labels))
           \<and> cs = axisLines p @ yAxisLabels f2 p minVal maxVal 0 @ labels"
  using assms
  by (auto simp: plotAxes_def bindE_def split: Option.bind_splits sum.splits)

subsection \<open>The first segment of a braille line\<close>

lemma length_brailleSegments [simp]:
  "length (brailleSegments p drawArea minVal maxVal i j previousHeight vals) = length vals"
  by (induction vals arbitrary: j previousHeight) (simp_all add: Let_def)

text \<open>
  Segment \<open>k\<close> of a series ends at sample \<open>k + 1\<close>; it starts at the height of sample
  \<open>k\<close> for \<open>k > 0\<close>, and at the height the loop was entered with for \<open>k = 0\<close>.
\<close>

lemma brailleSegments_nth:
  "k < length vals \<Longrightarrow>
   brailleSegments p drawArea minVal maxVal i j previousHeight vals ! k
   = CanvasSetLine
       ((MinX drawArea + (j + int k) * HorizontalScale p) * 2,
        (MaxY drawArea
         - (if k = 0 then previousHeight
            else cellHeight drawArea minVal maxVal (vals ! (k - 1))) - 1) * 4)
       ((MinX drawArea + (j + int k + 1) * HorizontalScale p) * 2,
        (MaxY drawArea - cellHeight drawArea minVal maxVal (vals ! k) - 1) * 4)
       i"
proof (induction vals arbitrary: j previousHeight k)
  case Nil
  then show ?case by simp
next
  case (Cons v vals)
  show ?case
  proof (cases k)
    case 0
    then show ?thesis by (simp add: Let_def)
  next
    case (Suc k')
    with Cons.prems have "k' < length vals" by simp
    from Cons.IH [OF this, of "j + 1" "cellHeight drawArea minVal maxVal v"] Suc
    show ?thesis
      by (cases k') (simp_all add: Let_def algebra_simps)
  qed
qed

text \<open>
  The height before the loop is that of \<^verbatim>\<open>line[1]\<close> (line 108) and the loop starts at
  \<^verbatim>\<open>line[1]\<close> too: the first segment runs from column 0 to column 1 at the height
  of sample 1, and sample 0 is not read.
\<close>

lemma first_segment_is_flat:
  assumes "2 \<le> length line"
  shows "(\<exists>e. brailleLines p drawArea minVal maxVal i (line # lines) = Inl e)
       \<or> (\<exists>cs. brailleLines p drawArea minVal maxVal i (line # lines)
              = Inr (CanvasSetLine
                       ((MinX drawArea + 0 * HorizontalScale p) * 2,
                        (MaxY drawArea - cellHeight drawArea minVal maxVal (line ! 1) - 1) * 4)
                       ((MinX drawArea + (0 + 1) * HorizontalScale p) * 2,
                        (MaxY drawArea - cellHeight drawArea minVal maxVal (line ! 1) - 1) * 4)
                       i # cs))"
proof -
  from assms obtain v0 v1 rest where l: "line = v0 # v1 # rest"
    by (cases line; cases "tl line") auto
  show ?thesis
    by (cases "brailleLines p drawArea minVal maxVal (Suc i) lines")
       (simp_all add: l index_def bindE_def Let_def)
qed

text \<open>
  C3. A line chart of the one series 0, 4 between the bounds 0 and 4, on a draw area
  of 10 by 5 cells: sample 0 has height 0, the cell (0, 4) and the sub-cell point
  (0, 16); sample 1 has height 4, the cell (1, 0) and the sub-cell point (2, 0). The
  segment drawn starts at (0, 0), not at (0, 16).
\<close>

theorem braille_first_segment:
  "renderBraille (NewPlot\<lparr>Data := [[Fin 0, Fin 4]]\<rparr>) (Rect 0 0 10 5) (Fin 0) (Fin 4)
   = Inr [CanvasSetLine (0, 0) (2, 0) 0, CanvasDraw (Rect 0 0 10 5)] \<and>
   ((MinX (Rect 0 0 10 5) + 0 * HorizontalScale (NewPlot\<lparr>Data := [[Fin 0, Fin 4]]\<rparr>)) * 2,
    (MaxY (Rect 0 0 10 5) - cellHeight (Rect 0 0 10 5) (Fin 0) (Fin 4) (Fin 0) - 1) * 4)
   = (0, 16) \<and>
   ((MinX (Rect 0 0 10 5) + 1 * HorizontalScale (NewPlot\<lparr>Data := [[Fin 0, Fin 4]]\<rparr>)) * 2,
    (MaxY (Rect 0 0 10 5) - cellHeight (Rect 0 0 10 5) (Fin 0) (Fin 4) (Fin 4) - 1) * 4)
   = (2, 0)"
  by code_simp

end
